theory Spec2Isabelle
  imports Main
begin

section \<open>gomire: bulk image resizing, command \<open>cmd\<close> package\<close>

text \<open>
  The development follows the current revision of the command file (the second of the two
  revisions kept in the source tree: the one with the \<open>verbose\<close> flag, the resolution check
  and the goroutine fan-out).  Go strings are byte sequences and are modelled as
  \<^typ>\<open>string\<close>; paths are Unix paths with separator \<open>/\<close>; Go's \<open>int\<close> is the 64-bit
  integer of the usual build targets.
\<close>

subsection \<open>The standard-library string functions the command uses\<close>

text \<open>\<open>strings.HasPrefix s p\<close>\<close>
fun HasPrefix :: "string \<Rightarrow> string \<Rightarrow> bool" where
  "HasPrefix s [] = True"
| "HasPrefix [] (p # ps) = False"
| "HasPrefix (c # cs) (p # ps) = (c = p \<and> HasPrefix cs ps)"

definition toLowerChar :: "char \<Rightarrow> char" where
  "toLowerChar c =
     (case map_of (zip ''ABCDEFGHIJKLMNOPQRSTUVWXYZ'' ''abcdefghijklmnopqrstuvwxyz'') c of
        None \<Rightarrow> c
      | Some l \<Rightarrow> l)"

text \<open>\<open>strings.ToLower\<close> on the UTF-8 bytes of the string.  The letters \<open>A\<close> to \<open>Z\<close> are
  folded, and so are the two runes outside ASCII whose lower case is an ASCII letter:
  U+0130 (bytes \<open>C4 B0\<close>) becomes \<open>i\<close> and U+212A (bytes \<open>E2 84 AA\<close>) becomes \<open>k\<close>.  Every other
  rune outside ASCII is mapped by Go to a rune outside ASCII again (an invalid byte to
  U+FFFD); the model leaves those bytes as they are, which no comparison of the command
  with an ASCII text can tell apart.\<close>
fun ToLower :: "string \<Rightarrow> string" where
  "ToLower [] = []"
| "ToLower (c # cs) =
     (if HasPrefix (c # cs) [CHR 0xC4, CHR 0xB0] then CHR ''i'' # ToLower (drop 1 cs)
      else if HasPrefix (c # cs) [CHR 0xE2, CHR 0x84, CHR 0xAA]
        then CHR ''k'' # ToLower (drop 2 cs)
      else toLowerChar c # ToLower cs)"

text \<open>The UTF-8 encodings of the runes \<open>unicode.IsSpace\<close> accepts: tab, line feed, vertical
  tab, form feed, carriage return, space, U+0085, U+00A0, U+1680, U+2000 to U+200A, U+2028,
  U+2029, U+202F, U+205F and U+3000.\<close>
definition spaceRunes :: "string list" where
  "spaceRunes =
     [[CHR 0x09], [CHR 0x0A], [CHR 0x0B], [CHR 0x0C], [CHR 0x0D], [CHR 0x20],
      [CHR 0xC2, CHR 0x85], [CHR 0xC2, CHR 0xA0], [CHR 0xE1, CHR 0x9A, CHR 0x80],
      [CHR 0xE2, CHR 0x80, CHR 0x80], [CHR 0xE2, CHR 0x80, CHR 0x81],
      [CHR 0xE2, CHR 0x80, CHR 0x82], [CHR 0xE2, CHR 0x80, CHR 0x83],
      [CHR 0xE2, CHR 0x80, CHR 0x84], [CHR 0xE2, CHR 0x80, CHR 0x85],
      [CHR 0xE2, CHR 0x80, CHR 0x86], [CHR 0xE2, CHR 0x80, CHR 0x87],
      [CHR 0xE2, CHR 0x80, CHR 0x88], [CHR 0xE2, CHR 0x80, CHR 0x89],
      [CHR 0xE2, CHR 0x80, CHR 0x8A], [CHR 0xE2, CHR 0x80, CHR 0xA8],
      [CHR 0xE2, CHR 0x80, CHR 0xA9], [CHR 0xE2, CHR 0x80, CHR 0xAF],
      [CHR 0xE2, CHR 0x81, CHR 0x9F], [CHR 0xE3, CHR 0x80, CHR 0x80]]"

text \<open>The length of the encoding in \<open>encs\<close> that the string starts with, 0 if there is none.\<close>
definition spaceLen :: "string list \<Rightarrow> string \<Rightarrow> nat" where
  "spaceLen encs s = (case find (HasPrefix s) encs of None \<Rightarrow> 0 | Some enc \<Rightarrow> length enc)"

text \<open>Removes the white-space runes at the front.\<close>
fun stripSpaces :: "string list \<Rightarrow> string \<Rightarrow> string" where
  "stripSpaces encs [] = []"
| "stripSpaces encs (c # cs) =
     (if spaceLen encs (c # cs) = 0 then c # cs
      else stripSpaces encs (drop (spaceLen encs (c # cs) - 1) cs))"

text \<open>\<open>strings.TrimSpace\<close>: the white-space runes at the front and at the end are removed;
  at the end the encodings are matched backwards.\<close>
definition TrimSpace :: "string \<Rightarrow> string" where
  "TrimSpace s = rev (stripSpaces (map rev spaceRunes) (rev (stripSpaces spaceRunes s)))"

text \<open>\<open>strings.Contains s sub\<close>: \<open>sub\<close> occurs in \<open>s\<close> at some offset.\<close>
fun Contains :: "string \<Rightarrow> string \<Rightarrow> bool" where
  "Contains [] sub = (sub = [])"
| "Contains (c # cs) sub = (HasPrefix (c # cs) sub \<or> Contains cs sub)"

text \<open>\<open>strings.Replace s old new 1\<close>: the leftmost occurrence of \<open>old\<close> is replaced; an
  empty \<open>old\<close> matches at offset 0.\<close>
fun Replace1 :: "string \<Rightarrow> string \<Rightarrow> string \<Rightarrow> string" where
  "Replace1 [] old new = (if old = [] then new else [])"
| "Replace1 (c # cs) old new =
     (if HasPrefix (c # cs) old then new @ drop (length old) (c # cs)
      else c # Replace1 cs old new)"

text \<open>\<open>strings.Replace s old new (-1)\<close> for a non-empty \<open>old\<close> (the command only passes the
  literals \<open>jpeg\<close> and \<open>tiff\<close>): every non-overlapping occurrence, left to right.\<close>
fun ReplaceAll :: "string \<Rightarrow> char \<Rightarrow> string \<Rightarrow> string \<Rightarrow> string" where
  "ReplaceAll [] o1 os new = []"
| "ReplaceAll (c # cs) o1 os new =
     (if c = o1 \<and> HasPrefix cs os then new @ ReplaceAll (drop (length os) cs) o1 os new
      else c # ReplaceAll cs o1 os new)"

text \<open>\<open>strings.Split s sep\<close> for a one-byte separator: never empty, \<open>Split "" sep = [""]\<close>.\<close>
fun Split :: "string \<Rightarrow> char \<Rightarrow> string list" where
  "Split [] sep = [[]]"
| "Split (c # cs) sep =
     (if c = sep then [] # Split cs sep
      else (case Split cs sep of [] \<Rightarrow> [[c]] | w # ws \<Rightarrow> (c # w) # ws))"

definition digitVal :: "char \<Rightarrow> nat option" where
  "digitVal c = map_of (zip ''0123456789'' [0, 1, 2, 3, 4, 5, 6, 7, 8, 9]) c"

fun parseDigits :: "string \<Rightarrow> nat \<Rightarrow> nat option" where
  "parseDigits [] acc = Some acc"
| "parseDigits (c # cs) acc =
     (case digitVal c of None \<Rightarrow> None | Some d \<Rightarrow> parseDigits cs (acc * 10 + d))"

text \<open>\<open>strconv.Atoi\<close>: an optional sign, then one or more decimal digits, and the value must
  fit the 64-bit \<open>int\<close>; \<open>None\<close> stands for the returned error.\<close>
definition Atoi :: "string \<Rightarrow> int option" where
  "Atoi s =
     (let (neg, body) =
        (case s of [] \<Rightarrow> (False, [])
         | c # cs \<Rightarrow> if c = CHR ''-'' then (True, cs)
                    else if c = CHR ''+'' then (False, cs) else (False, s))
      in if body = [] then None
         else (case parseDigits body 0 of
                 None \<Rightarrow> None
               | Some n \<Rightarrow>
                   (let v = (if neg then - int n else int n)
                    in if - 9223372036854775808 \<le> v \<and> v \<le> 9223372036854775807
                       then Some v else None)))"

subsection \<open>The \<open>path/filepath\<close> functions the command uses (Unix)\<close>

text \<open>One step of \<open>filepath.Clean\<close> on the next \<open>/\<close>-separated element; the elements kept
  so far are held innermost first.  Empty elements and \<open>.\<close> vanish, \<open>..\<close> removes the
  element before it, is dropped at the root, and is kept at the front of a relative path.\<close>
definition cleanStep :: "bool \<Rightarrow> string list \<Rightarrow> string \<Rightarrow> string list" where
  "cleanStep rooted kept el =
     (if el = [] \<or> el = ''.'' then kept
      else if el = ''..'' then
        (case kept of
           [] \<Rightarrow> if rooted then [] else [''..'']
         | el0 # rest \<Rightarrow> if el0 = ''..'' then ''..'' # kept else rest)
      else el # kept)"

fun joinSlash :: "string list \<Rightarrow> string" where
  "joinSlash [] = []"
| "joinSlash [el] = el"
| "joinSlash (el # els) = el @ ''/'' @ joinSlash els"

text \<open>\<open>filepath.Clean\<close>\<close>
definition Clean :: "string \<Rightarrow> string" where
  "Clean path =
     (if path = [] then ''.''
      else
        (let rooted = HasPrefix path ''/'';
             body = joinSlash (rev (foldl (cleanStep rooted) [] (Split path (CHR ''/''))))
         in if rooted then ''/'' @ body else if body = [] then ''.'' else body))"

text \<open>\<open>filepath.Join\<close> of two elements.\<close>
definition Join :: "string \<Rightarrow> string \<Rightarrow> string" where
  "Join a b =
     (if a \<noteq> [] then Clean (a @ ''/'' @ b) else if b \<noteq> [] then Clean b else [])"

text \<open>\<open>filepath.IsAbs\<close>\<close>
definition IsAbs :: "string \<Rightarrow> bool" where
  "IsAbs path = HasPrefix path ''/''"

text \<open>\<open>filepath.Ext\<close>: the suffix from the last dot of the last element, empty without one.\<close>
definition Ext :: "string \<Rightarrow> string" where
  "Ext path =
     (let base = takeWhile (\<lambda>c. c \<noteq> CHR ''/'') (rev path)
      in if CHR ''.'' \<in> set base
         then CHR ''.'' # rev (takeWhile (\<lambda>c. c \<noteq> CHR ''.'') base)
         else [])"

text \<open>\<open>filepath.Dir\<close>: everything up to the last separator, cleaned.\<close>
definition Dir :: "string \<Rightarrow> string" where
  "Dir path = Clean (rev (dropWhile (\<lambda>c. c \<noteq> CHR ''/'') (rev path)))"

subsection \<open>Process state, environment and outcomes\<close>

text \<open>What the process writes to standard output, one constructor per print statement.\<close>
datatype report =
    AbsFailed string
  | InputDirMissing string
  | MkdirFailed string
  | OutputInsideInput
  | MissingSeparator
  | WidthUnparsable string
  | HeightUnparsable string
  | EnumerationFailed string
  | NoFilesFound
  | FailedCount nat
  | Failure string

text \<open>How the process stops before \<open>main\<close> returns: \<open>os.Exit\<close> with a code, or a run-time
  panic (index or slice bounds out of range).\<close>
datatype halt = Exit nat | Panic

type_synonym 'a result = "(halt \<times> report list) + 'a"

record FileOperation =
  originPath :: string
  targetPath :: string
  targetWidth :: int
  targetHeight :: int

text \<open>The package-level variables, and the lines printed so far.\<close>
record globals =
  inputDir :: string
  outputDir :: string
  recursive :: bool
  verbose :: bool
  fileType :: string
  fileTypes :: "string list"
  resolution :: string
  printed :: "report list"

definition supportedImgTypes :: "string list" where
  "supportedImgTypes = [''jpg'', ''png'', ''gif'', ''tif'', ''bmp'']"

text \<open>What \<open>fs.WalkDir\<close> finds: a directory entry carries its name, and a directory the
  entries \<open>os.ReadDir\<close> returns for it together with the error of that call, if any.\<close>
datatype fsnode =
    RegFile string
  | Directory string "fsnode list" "string option"

fun nodeName :: "fsnode \<Rightarrow> string" where
  "nodeName (RegFile n) = n"
| "nodeName (Directory n es err) = n"

fun IsDir :: "fsnode \<Rightarrow> bool" where
  "IsDir (RegFile n) = False"
| "IsDir (Directory n es err) = True"

text \<open>The operating system and the imaging library, as far as the command observes them.
  \<open>pathExists\<close> is the first result of \<open>utils.PathExists\<close>, a helper of this repository whose
  file is not part of the source tree at hand; the command ignores its second result.\<close>
record env =
  getwd :: "string option"
  pathExists :: "string \<Rightarrow> bool"
  mkdirAll :: "string \<Rightarrow> string option"
  lstat :: "string \<Rightarrow> string + fsnode"
  imagingOpen :: "string \<Rightarrow> string option"
  imagingSave :: "string \<Rightarrow> string option"

text \<open>\<open>filepath.Abs\<close>; \<open>None\<close> when the working directory cannot be read.\<close>
definition Abs :: "env \<Rightarrow> string \<Rightarrow> string option" where
  "Abs e path =
     (if IsAbs path then Some (Clean path)
      else (case getwd e of None \<Rightarrow> None | Some wd \<Rightarrow> Some (Join wd path)))"

subsection \<open>\<open>NewFileOperation\<close> and \<open>isSupportedFiletype\<close>\<close>

definition halted :: "halt \<Rightarrow> report list \<Rightarrow> 'a result" where
  "halted h out = Inl (h, out)"

text \<open>The second argument is what has been printed before the call.\<close>
definition NewFileOperation ::
  "string \<Rightarrow> string \<Rightarrow> string \<Rightarrow> report list \<Rightarrow> FileOperation result" where
  "NewFileOperation o_path t_path res out =
     (let splits = Split res (CHR ''x'') in
      case Atoi (hd splits) of
        None \<Rightarrow> halted (Exit 2) (out @ [WidthUnparsable res])
      | Some w \<Rightarrow>
          if length splits < 2 then halted Panic out
          else
            (case Atoi (splits ! 1) of
               None \<Rightarrow> halted (Exit 2) (out @ [HeightUnparsable res])
             | Some h \<Rightarrow>
                 Inr \<lparr>originPath = o_path, targetPath = t_path,
                      targetWidth = w, targetHeight = h\<rparr>))"

text \<open>\<open>strings.ToLower(s)[1:]\<close> panics on the empty string.\<close>
definition isSupportedFiletype :: "string \<Rightarrow> report list \<Rightarrow> bool result" where
  "isSupportedFiletype s out =
     (let l = ToLower s in
      if length l < 1 then halted Panic out
      else Inr (drop 1 l \<in> set supportedImgTypes))"

subsection \<open>\<open>validateFlags\<close>\<close>

text \<open>\<open>utils.IsStringEmpty\<close>\<close>
definition IsStringEmpty :: "string \<Rightarrow> bool" where
  "IsStringEmpty s = (length (TrimSpace s) = 0)"

text \<open>The loop over the requested types: an entry that is not blank and does not start with a
  dot gets one.\<close>
definition dotted :: "string \<Rightarrow> string" where
  "dotted v = (if IsStringEmpty v then v else if hd v \<noteq> CHR ''.'' then ''.'' @ v else v)"

text \<open>When \<open>filepath.Abs\<close> fails it returns the empty string, and that is what the
  message shows.  The input directory is bound by a short variable declaration, so its absolute form
  lives in a local variable (\<open>inputDirL\<close> below) and the package-level \<open>inputDir\<close> keeps the
  text of the flag; the output directory is assigned to the package-level variable.  A failed
  \<open>os.MkdirAll\<close> is printed and validation goes on.\<close>
definition validateFlags :: "env \<Rightarrow> globals \<Rightarrow> globals result" where
  "validateFlags e g =
     (case Abs e (inputDir g) of
        None \<Rightarrow> halted (Exit 2) (printed g @ [AbsFailed []])
      | Some inputDirL \<Rightarrow>
          if \<not> pathExists e inputDirL
          then halted (Exit 2) (printed g @ [InputDirMissing inputDirL])
          else
            (case Abs e (outputDir g) of
               None \<Rightarrow> halted (Exit 2) (printed g @ [AbsFailed []])
             | Some outAbs \<Rightarrow>
                 (let g1 = g\<lparr>outputDir := outAbs\<rparr>;
                      g2 = (if \<not> pathExists e outAbs
                            then (case mkdirAll e outAbs of
                                    None \<Rightarrow> g1
                                  | Some err \<Rightarrow> g1\<lparr>printed := printed g1 @ [MkdirFailed outAbs]\<rparr>)
                            else g1)
                  in if Contains (outputDir g2) inputDirL
                     then halted (Exit 2) (printed g2 @ [OutputInsideInput])
                     else
                       (let ft = ReplaceAll (ReplaceAll (fileType g2) (CHR ''j'') ''peg'' ''jpg'')
                                   (CHR ''t'') ''iff'' ''tif'';
                            g3 = g2\<lparr>fileType := ft,
                                    fileTypes := map dotted (Split ft (CHR '',''))\<rparr>;
                            g4 = g3\<lparr>resolution := TrimSpace (ToLower (resolution g3))\<rparr>
                        in if \<not> Contains (resolution g4) ''x''
                           then halted (Exit 2) (printed g4 @ [MissingSeparator])
                           else Inr g4))))"

subsection \<open>\<open>listFilesToBeCopies\<close>: the walk and its callback\<close>

text \<open>The error value a walk callback (and the walk) returns: \<open>nil\<close>, the sentinel
  \<open>fs.SkipDir\<close>, or a real error.\<close>
datatype walkret = Nil | SkipDir | Err string

text \<open>The function literal passed to \<open>filepath.WalkDir\<close>.  It closes over the package
  variables and over \<open>files\<close>, which it extends; the entry is absent exactly when the walk
  reports a failed \<open>Lstat\<close> of the root, and then the error is present.\<close>
definition visit ::
  "globals \<Rightarrow> string \<Rightarrow> fsnode option \<Rightarrow> string option \<Rightarrow> FileOperation list
     \<Rightarrow> (FileOperation list \<times> walkret) result" where
  "visit g s d e files =
     (case e of
        Some err \<Rightarrow> Inr (files, Err err)
      | None \<Rightarrow>
          (case d of
             None \<Rightarrow> halted Panic (printed g)
           | Some n \<Rightarrow>
               if IsDir n then
                 (if s \<noteq> inputDir g \<and> \<not> recursive g then Inr (files, SkipDir)
                  else Inr (files, Nil))
               else
                 (case isSupportedFiletype (Ext s) (printed g) of
                    Inl h \<Rightarrow> Inl h
                  | Inr ok \<Rightarrow>
                      if ok then
                        (let t = Replace1 s (inputDir g) (outputDir g) in
                         case NewFileOperation s t (resolution g) (printed g) of
                           Inl h \<Rightarrow> Inl h
                         | Inr fo \<Rightarrow> Inr (files @ [fo], Nil))
                      else Inr (files, Nil))))"

text \<open>A skipped directory is a success for the caller.\<close>
definition skipped :: "walkret \<Rightarrow> walkret" where
  "skipped r = (if r = SkipDir then Nil else r)"

text \<open>\<open>filepath.walkDir\<close>: the callback on the entry itself, for a directory a second call
  when \<open>ReadDir\<close> failed, then the entries in the order \<open>ReadDir\<close> gave them.\<close>
fun walkDir ::
  "globals \<Rightarrow> string \<Rightarrow> fsnode \<Rightarrow> FileOperation list
     \<Rightarrow> (FileOperation list \<times> walkret) result"
and walkEntries ::
  "globals \<Rightarrow> string \<Rightarrow> fsnode list \<Rightarrow> FileOperation list
     \<Rightarrow> (FileOperation list \<times> walkret) result" where
  "walkDir g path (RegFile n) files = visit g path (Some (RegFile n)) None files"
| "walkDir g path (Directory n es rerr) files =
     (case visit g path (Some (Directory n es rerr)) None files of
        Inl h \<Rightarrow> Inl h
      | Inr (files1, r) \<Rightarrow>
          if r \<noteq> Nil then Inr (files1, skipped r)
          else
            (case rerr of
               None \<Rightarrow> walkEntries g path es files1
             | Some err \<Rightarrow>
                 (case visit g path (Some (Directory n es rerr)) (Some err) files1 of
                    Inl h \<Rightarrow> Inl h
                  | Inr (files2, r2) \<Rightarrow>
                      if r2 \<noteq> Nil then Inr (files2, skipped r2)
                      else walkEntries g path es files2)))"
| "walkEntries g path [] files = Inr (files, Nil)"
| "walkEntries g path (d1 # ds) files =
     (case walkDir g (Join path (nodeName d1)) d1 files of
        Inl h \<Rightarrow> Inl h
      | Inr (files1, r) \<Rightarrow>
          if r \<noteq> Nil then Inr (files1, skipped r)
          else walkEntries g path ds files1)"

text \<open>\<open>filepath.WalkDir\<close>\<close>
definition WalkDir ::
  "env \<Rightarrow> globals \<Rightarrow> string \<Rightarrow> FileOperation list
     \<Rightarrow> (FileOperation list \<times> walkret) result" where
  "WalkDir e g root files =
     (case (case lstat e root of
              Inl err \<Rightarrow> visit g root None (Some err) files
            | Inr d \<Rightarrow> walkDir g root d files) of
        Inl h \<Rightarrow> Inl h
      | Inr (files1, r) \<Rightarrow> Inr (files1, skipped r))"

text \<open>The value of \<open>filepath.WalkDir\<close> is not bound to anything: the function returns what
  the callback collected, with a \<open>nil\<close> error.\<close>
definition listFilesToBeCopies ::
  "env \<Rightarrow> globals \<Rightarrow> (FileOperation list \<times> string option) result" where
  "listFilesToBeCopies e g =
     (case WalkDir e g (inputDir g) [] of
        Inl h \<Rightarrow> Inl h
      | Inr (files, r) \<Rightarrow> Inr (files, None))"

subsection \<open>\<open>cmdMain\<close> up to the dispatch\<close>

text \<open>\<open>Inr (g, files)\<close>: the call \<open>copyFilesWithProgress(files)\<close> is reached, with the package
  variables as in \<open>g\<close>.  \<open>Inl\<close>: the process stopped before that.\<close>
definition cmdMain :: "env \<Rightarrow> globals \<Rightarrow> (globals \<times> FileOperation list) result" where
  "cmdMain e g =
     (case validateFlags e g of
        Inl h \<Rightarrow> Inl h
      | Inr g1 \<Rightarrow>
          (case listFilesToBeCopies e g1 of
             Inl h \<Rightarrow> Inl h
           | Inr (files, err) \<Rightarrow>
               (case err of
                  Some er \<Rightarrow> halted (Exit 2) (printed g1 @ [EnumerationFailed er])
                | None \<Rightarrow>
                    if length files = 0 then halted (Exit 0) (printed g1 @ [NoFilesFound])
                    else Inr (g1, files))))"

subsection \<open>\<open>processImage\<close> and \<open>copyFilesWithProgress\<close>\<close>

text \<open>\<open>processImage\<close>: the error it returns, if any.  Resizing itself cannot fail.\<close>
definition processImage :: "env \<Rightarrow> FileOperation \<Rightarrow> string option" where
  "processImage e fo =
     (case imagingOpen e (originPath fo) of
        Some err \<Rightarrow> Some (''error opening image '' @ originPath fo @ '': '' @ err)
      | None \<Rightarrow>
          (case mkdirAll e (Dir (targetPath fo)) of
             Some err \<Rightarrow>
               Some (''error creating destination folder '' @ targetPath fo @ '': '' @ err)
           | None \<Rightarrow>
               (case imagingSave e (targetPath fo) of
                  Some err \<Rightarrow>
                    Some (''error saving resized image '' @ targetPath fo @ '': '' @ err)
                | None \<Rightarrow> None)))"

text \<open>
  The dispatcher starts one goroutine per operation and waits for all of them.  The
  goroutines share two things: the progress bar, whose \<open>Add\<close> is serialised by the bar's own
  lock, and the slice variable \<open>errs\<close>, which the statement \<open>errs = append(errs, msg)\<close> reads
  and then writes with no lock around it.  A goroutine is therefore a sequence of atomic
  steps, and an execution is an interleaving of the goroutines' steps:
  \<^item> \<open>Ready\<close>: run \<open>processImage\<close> (no shared data);
  \<^item> \<open>Failed\<close>: read \<open>errs\<close>;
  \<^item> \<open>Holding\<close>: write the value read, extended by the message, back to \<open>errs\<close>;
  \<^item> \<open>Deferred\<close>: the deferred \<open>bar.Add(1)\<close>;
  \<^item> \<open>Done\<close>: \<open>wg.Done()\<close> has run.
  Interleavings of whole reads and writes are the mildest behaviours an unsynchronised Go
  program has.
\<close>
datatype task =
    Ready FileOperation
  | Failed string
  | Holding "string list" string
  | Deferred
  | Done

record shared =
  errs :: "string list"
  bar :: nat

fun stepTask :: "env \<Rightarrow> task \<Rightarrow> shared \<Rightarrow> task \<times> shared" where
  "stepTask e (Ready fo) sh =
     (case processImage e fo of
        None \<Rightarrow> (Deferred, sh)
      | Some m \<Rightarrow> (Failed (''Error processing image: '' @ m @ [CHR 0x0A]), sh))"
| "stepTask e (Failed m) sh = (Holding (errs sh) m, sh)"
| "stepTask e (Holding old m) sh = (Deferred, sh\<lparr>errs := old @ [m]\<rparr>)"
| "stepTask e Deferred sh = (Done, sh\<lparr>bar := bar sh + 1\<rparr>)"
| "stepTask e Done sh = (Done, sh)"

text \<open>A schedule names, step by step, the goroutine that moves next.\<close>
fun runSchedule :: "env \<Rightarrow> nat list \<Rightarrow> task list \<times> shared \<Rightarrow> task list \<times> shared" where
  "runSchedule e [] c = c"
| "runSchedule e (i # sched) (ts, sh) =
     (if i < length ts then
        (case stepTask e (ts ! i) sh of
           (t, sh1) \<Rightarrow> runSchedule e sched (ts[i := t], sh1))
      else runSchedule e sched (ts, sh))"

definition allDone :: "task list \<Rightarrow> bool" where
  "allDone ts = (filter (\<lambda>t. t \<noteq> Done) ts = [])"

text \<open>What is printed after \<open>wg.Wait()\<close>.\<close>
definition summary :: "bool \<Rightarrow> string list \<Rightarrow> report list" where
  "summary verb es =
     (if length es > 0 then [FailedCount (length es)] else [])
     @ (if verb then map Failure es else [])"

text \<open>\<open>copyFilesWithProgress\<close> under a schedule: \<open>None\<close> while \<open>wg.Wait()\<close> is still blocked,
  otherwise the shared state after the join and the lines printed.\<close>
definition copyFilesWithProgress ::
  "env \<Rightarrow> bool \<Rightarrow> FileOperation list \<Rightarrow> nat list \<Rightarrow> (shared \<times> report list) option" where
  "copyFilesWithProgress e verb fo sched =
     (case runSchedule e sched (map Ready fo, \<lparr>errs = [], bar = 0\<rparr>) of
        (ts, sh) \<Rightarrow> if allDone ts then Some (sh, summary verb (errs sh)) else None)"

text \<open>The number of planned operations whose \<open>processImage\<close> fails.\<close>
definition failures :: "env \<Rightarrow> FileOperation list \<Rightarrow> nat" where
  "failures e fo = length (filter (\<lambda>f. processImage e f \<noteq> None) fo)"

subsection \<open>Concrete runs\<close>

text \<open>The package variables as the flag parser leaves them: input directory, output
  directory, \<open>--recursive\<close>, \<open>--type\<close> and \<open>--resolution\<close>.\<close>
definition flags :: "string \<Rightarrow> string \<Rightarrow> bool \<Rightarrow> string \<Rightarrow> string \<Rightarrow> globals" where
  "flags i out r t res =
     \<lparr>inputDir = i, outputDir = out, recursive = r, verbose = False, fileType = t,
      fileTypes = [], resolution = res, printed = []\<rparr>"

text \<open>A machine with working directory \<open>/home/u\<close> on which every path exists, every
  directory can be created and every image can be read and written; \<open>Lstat\<close> of \<open>root\<close>
  finds \<open>tree\<close>.\<close>
definition machine :: "string \<Rightarrow> fsnode \<Rightarrow> env" where
  "machine root tree =
     \<lparr>getwd = Some ''/home/u'',
      pathExists = (\<lambda>p. True),
      mkdirAll = (\<lambda>p. None),
      lstat = (\<lambda>p. if p = root then Inr tree else Inl ''no such file or directory''),
      imagingOpen = (\<lambda>p. None),
      imagingSave = (\<lambda>p. None)\<rparr>"

text \<open>\<open>subPathOrEqual inp out\<close>: the path \<open>out\<close> is \<open>inp\<close> itself or lies below it.\<close>
definition subPathOrEqual :: "string \<Rightarrow> string \<Rightarrow> bool" where
  "subPathOrEqual inp out =
     (out = inp \<or> HasPrefix out (if inp \<noteq> [] \<and> last inp = CHR ''/'' then inp else inp @ ''/''))"

lemmas run_defs = cmdMain_def validateFlags_def listFilesToBeCopies_def WalkDir_def visit_def
  skipped_def halted_def isSupportedFiletype_def NewFileOperation_def Abs_def IsAbs_def Clean_def
  Join_def cleanStep_def Ext_def toLowerChar_def TrimSpace_def spaceLen_def spaceRunes_def
  IsStringEmpty_def dotted_def Atoi_def digitVal_def supportedImgTypes_def flags_def machine_def
  Let_def

subsection \<open>The files of a tree\<close>

text \<open>The regular files of a tree, with the paths the walk gives them.\<close>
fun filesBelow :: "string \<Rightarrow> fsnode \<Rightarrow> string list"
and filesBelowList :: "string \<Rightarrow> fsnode list \<Rightarrow> string list" where
  "filesBelow path (RegFile n) = [path]"
| "filesBelow path (Directory n es rerr) = filesBelowList path es"
| "filesBelowList path [] = []"
| "filesBelowList path (d1 # ds) =
     filesBelow (Join path (nodeName d1)) d1 @ filesBelowList path ds"

text \<open>The regular files directly in a directory.\<close>
fun directFiles :: "string \<Rightarrow> fsnode list \<Rightarrow> string list" where
  "directFiles path [] = []"
| "directFiles path (RegFile n # ds) = Join path n # directFiles path ds"
| "directFiles path (Directory n es rerr # ds) = directFiles path ds"

text \<open>Every directory of the tree can be read.\<close>
fun readable :: "fsnode \<Rightarrow> bool"
and readableList :: "fsnode list \<Rightarrow> bool" where
  "readable (RegFile n) = True"
| "readable (Directory n es rerr) = (rerr = None \<and> readableList es)"
| "readableList [] = True"
| "readableList (d1 # ds) = (readable d1 \<and> readableList ds)"

text \<open>The extension of the path, lower-cased and without its dot, is a supported type.\<close>
definition supportedExt :: "string \<Rightarrow> bool" where
  "supportedExt s = (drop 1 (ToLower (Ext s)) \<in> set supportedImgTypes)"

text \<open>The operation planned for the walked path \<open>s\<close> at the parsed resolution.\<close>
definition plan :: "globals \<Rightarrow> int \<Rightarrow> int \<Rightarrow> string \<Rightarrow> FileOperation" where
  "plan g w h s =
     \<lparr>originPath = s, targetPath = Replace1 s (inputDir g) (outputDir g),
      targetWidth = w, targetHeight = h\<rparr>"

text \<open>The last element of the path has a dot.\<close>
definition hasExt :: "string \<Rightarrow> bool" where
  "hasExt s = (Ext s \<noteq> [])"

text \<open>\<open>apart g path d\<close>: the walk path of the subdirectory \<open>d\<close> of \<open>path\<close> differs from the text
  of the input directory.\<close>
definition apart :: "globals \<Rightarrow> string \<Rightarrow> fsnode \<Rightarrow> bool" where
  "apart g path d = (if IsDir d then Join path (nodeName d) \<noteq> inputDir g else True)"


text \<open>The number of goroutines that have finished.\<close>
definition doneCount :: "task list \<Rightarrow> nat" where
  "doneCount ts = length (filter (\<lambda>t. t = Done) ts)"

text \<open>A planned operation on a file of the input directory \<open>/in\<close>.\<close>
definition planned :: "string \<Rightarrow> FileOperation" where
  "planned name =
     \<lparr>originPath = ''/in/'' @ name, targetPath = ''/out/'' @ name,
      targetWidth = 100, targetHeight = 50\<rparr>"

section \<open>Properties\<close>

subsection \<open>Auxiliary facts about the string functions\<close>

lemma Split_not_Nil: "Split s c \<noteq> []"
  by (induction s) (auto split: list.splits)

lemma ToLower_Nil: "ToLower s = [] \<longleftrightarrow> s = []"
  by (cases s) simp_all

lemma HasPrefix_append: "HasPrefix s (p @ q) \<Longrightarrow> HasPrefix s p"
  by (induction s p rule: HasPrefix.induct) auto

lemma HasPrefix_Contains: "HasPrefix s p \<Longrightarrow> Contains s p"
  by (cases s) (auto elim: HasPrefix.elims)

lemma HasPrefix_refl: "HasPrefix s s"
  by (induction s) auto

lemma Contains_sep_Split: "Contains s [c] \<Longrightarrow> 2 \<le> length (Split s c)"
proof (induction s)
  case Nil
  then show ?case by simp
next
  case (Cons a s)
  show ?case
  proof (cases "a = c")
    case True
    have "Split s c \<noteq> []" by (rule Split_not_Nil)
    then have "1 \<le> length (Split s c)" by (cases "Split s c") auto
    with True show ?thesis by simp
  next
    case False
    with Cons.prems have "Contains s [c]" by simp
    then have "2 \<le> length (Split s c)" by (rule Cons.IH)
    with False show ?thesis by (auto split: list.splits)
  qed
qed

lemma subPathOrEqual_Contains: "subPathOrEqual inp out \<Longrightarrow> Contains out inp"
  unfolding subPathOrEqual_def
  by (auto intro: HasPrefix_Contains HasPrefix_refl dest: HasPrefix_append split: if_splits)

subsection \<open>Validation\<close>





lemma parsable_components_accepted:
  assumes "Contains res ''x''"
    and "Atoi (hd (Split res (CHR ''x''))) = Some w"
    and "Atoi (Split res (CHR ''x'') ! 1) = Some h"
  shows "NewFileOperation o_path t_path res out =
           Inr \<lparr>originPath = o_path, targetPath = t_path, targetWidth = w, targetHeight = h\<rparr>"
proof -
  have "2 \<le> length (Split res (CHR ''x''))" using assms(1) by (rule Contains_sep_Split)
  then show ?thesis using assms(2,3)
    by (auto simp: NewFileOperation_def halted_def Let_def split: option.splits)
qed

text \<open>
  C8.  When the absolute form of the output directory equals the absolute form of the input
  directory or lies below it, validation stops the process with exit code 2; the
  enumeration is never started.
\<close>
theorem output_inside_input_rejected:
  assumes "Abs e (inputDir g) = Some a_in"
    and "Abs e (outputDir g) = Some a_out"
    and "subPathOrEqual a_in a_out"
  shows "\<exists>out. validateFlags e g = Inl (Exit 2, out) \<and> cmdMain e g = Inl (Exit 2, out)"
proof -
  have c: "Contains a_out a_in" using assms(3) by (rule subPathOrEqual_Contains)
  have "\<exists>out. validateFlags e g = Inl (Exit 2, out)"
    using assms(1,2) c
    by (simp add: validateFlags_def halted_def Let_def split: option.splits)
  then obtain out where v: "validateFlags e g = Inl (Exit 2, out)" ..
  then have "cmdMain e g = Inl (Exit 2, out)" by (simp add: cmdMain_def)
  with v show ?thesis by blast
qed

text \<open>The spec's own example: input \<open>/a\<close>, output \<open>/a/b\<close>.\<close>
theorem output_inside_input_rejected_witness:
  "Abs (machine ''/a'' (Directory ''a'' [] None))
       (inputDir (flags ''/a'' ''/a/b'' True ''png,jpg'' ''1920x1080'')) = Some ''/a''
   \<and> Abs (machine ''/a'' (Directory ''a'' [] None))
       (outputDir (flags ''/a'' ''/a/b'' True ''png,jpg'' ''1920x1080'')) = Some ''/a/b''
   \<and> subPathOrEqual ''/a'' ''/a/b''
   \<and> cmdMain (machine ''/a'' (Directory ''a'' [] None))
       (flags ''/a'' ''/a/b'' True ''png,jpg'' ''1920x1080'')
       = Inl (Exit 2, [OutputInsideInput])"
proof -
  let ?e = "machine ''/a'' (Directory ''a'' [] None)"
  let ?g = "flags ''/a'' ''/a/b'' True ''png,jpg'' ''1920x1080''"
  have a: "Abs ?e (inputDir ?g) = Some ''/a''" by (simp add: run_defs)
  have b: "Abs ?e (outputDir ?g) = Some ''/a/b''" by (simp add: run_defs)
  have s: "subPathOrEqual ''/a'' ''/a/b''" by (simp add: subPathOrEqual_def)
  from output_inside_input_rejected [OF a b s]
  obtain out where "validateFlags ?e ?g = Inl (Exit 2, out)"
    and c: "cmdMain ?e ?g = Inl (Exit 2, out)"
    by blast
  moreover have "validateFlags ?e ?g = Inl (Exit 2, [OutputInsideInput])"
    by (simp add: run_defs)
  ultimately have "out = [OutputInsideInput]" by simp
  with a b s c show ?thesis by simp
qed

text \<open>
  C6 (evaluation at the failing input).  The output directory \<open>/ro/out\<close> does not exist and
  \<open>os.MkdirAll\<close> fails: validation prints the failure and returns normally, and the run goes
  on to enumerate and to dispatch the operation found.
\<close>
theorem mkdir_failure_not_fatal:
  "validateFlags
     ((machine ''/in'' (Directory ''in'' [RegFile ''a.png''] None))
        \<lparr>pathExists := (\<lambda>p. p = ''/in''), mkdirAll := (\<lambda>p. Some ''permission denied'')\<rparr>)
     (flags ''/in'' ''/ro/out'' False ''png'' ''100x50'')
   = Inr \<lparr>inputDir = ''/in'', outputDir = ''/ro/out'', recursive = False, verbose = False,
          fileType = ''png'', fileTypes = [''.png''], resolution = ''100x50'',
          printed = [MkdirFailed ''/ro/out'']\<rparr>
   \<and> cmdMain
     ((machine ''/in'' (Directory ''in'' [RegFile ''a.png''] None))
        \<lparr>pathExists := (\<lambda>p. p = ''/in''), mkdirAll := (\<lambda>p. Some ''permission denied'')\<rparr>)
     (flags ''/in'' ''/ro/out'' False ''png'' ''100x50'')
   = Inr (\<lparr>inputDir = ''/in'', outputDir = ''/ro/out'', recursive = False, verbose = False,
           fileType = ''png'', fileTypes = [''.png''], resolution = ''100x50'',
           printed = [MkdirFailed ''/ro/out'']\<rparr>,
          [\<lparr>originPath = ''/in/a.png'', targetPath = ''/ro/out/a.png'',
            targetWidth = 100, targetHeight = 50\<rparr>])"
  by (simp add: run_defs)

text \<open>
  C5 (evaluation at the failing input).  With the relative arguments \<open>in\<close> and \<open>out\<close> and the
  working directory \<open>/home/u\<close>, the package-level input directory is still \<open>in\<close> after
  validation, and the planned operation has the relative origin path \<open>in/a.png\<close>.
\<close>
theorem relative_input_stays_relative:
  "cmdMain (machine ''in'' (Directory ''in'' [RegFile ''a.png''] None))
        (flags ''in'' ''out'' False ''png'' ''100x50'')
   = Inr (\<lparr>inputDir = ''in'', outputDir = ''/home/u/out'', recursive = False, verbose = False,
           fileType = ''png'', fileTypes = [''.png''], resolution = ''100x50'', printed = []\<rparr>,
          [\<lparr>originPath = ''in/a.png'', targetPath = ''/home/u/out/a.png'',
            targetWidth = 100, targetHeight = 50\<rparr>])
   \<and> IsAbs ''in'' = False \<and> IsAbs ''in/a.png'' = False"
  by (simp add: run_defs)

text \<open>
  C7 (evaluation at the failing inputs).  With the input directory given as \<open>./in\<close> the walk
  reports \<open>in/a.png\<close>, in which \<open>./in\<close> does not occur: the destination is the source
  itself.  With the input directory given as \<open>/in/\<close> the separator before the file name is
  lost: the destination of \<open>/in/a.png\<close> is \<open>/outa.png\<close>.
\<close>
theorem destination_outside_output_root:
  "cmdMain (machine ''./in'' (Directory ''in'' [RegFile ''a.png''] None))
        (flags ''./in'' ''/out'' False ''png'' ''100x50'')
   = Inr (\<lparr>inputDir = ''./in'', outputDir = ''/out'', recursive = False, verbose = False,
           fileType = ''png'', fileTypes = [''.png''], resolution = ''100x50'', printed = []\<rparr>,
          [\<lparr>originPath = ''in/a.png'', targetPath = ''in/a.png'',
            targetWidth = 100, targetHeight = 50\<rparr>])
   \<and> cmdMain (machine ''/in/'' (Directory ''in'' [RegFile ''a.png''] None))
        (flags ''/in/'' ''/out'' False ''png'' ''100x50'')
   = Inr (\<lparr>inputDir = ''/in/'', outputDir = ''/out'', recursive = False, verbose = False,
           fileType = ''png'', fileTypes = [''.png''], resolution = ''100x50'', printed = []\<rparr>,
          [\<lparr>originPath = ''/in/a.png'', targetPath = ''/outa.png'',
            targetWidth = 100, targetHeight = 50\<rparr>])"
  by (simp add: run_defs)

subsection \<open>Enumeration\<close>

text \<open>The walk reads neither \<open>fileType\<close> nor \<open>fileTypes\<close>: whatever validation stored there,
  the enumeration is the same.\<close>
lemma visit_ignores_requested_types:
  "visit (g\<lparr>fileType := t, fileTypes := ft\<rparr>) s d e files = visit g s d e files"
  by (simp add: visit_def Let_def split: option.splits sum.splits)

lemma walk_ignores_requested_types:
  "walkDir (g\<lparr>fileType := t, fileTypes := ft\<rparr>) path n files = walkDir g path n files"
  "walkEntries (g\<lparr>fileType := t, fileTypes := ft\<rparr>) path es files = walkEntries g path es files"
proof (induction g path n files and g path es files rule: walkDir_walkEntries.induct)
  case (1 g path n files)
  show ?case by (simp add: visit_ignores_requested_types)
next
  case (2 g path n es rerr files)
  then show ?case
    by (simp add: visit_ignores_requested_types split: sum.splits prod.splits option.splits)
next
  case (3 g path files)
  show ?case by simp
next
  case (4 g path d1 ds files)
  then show ?case by (simp split: sum.splits prod.splits)
qed

lemma listFiles_ignores_requested_types:
  "listFilesToBeCopies e (g\<lparr>fileType := t, fileTypes := ft\<rparr>) = listFilesToBeCopies e g"
  by (simp add: listFilesToBeCopies_def WalkDir_def walk_ignores_requested_types
      visit_ignores_requested_types cong: sum.case_cong)

text \<open>
  What the walk does find, on a tree whose directories can all be read, whose files all
  have an extension, and with a resolution that parses: with \<open>--recursive\<close> every file of
  the tree with a supported extension, at any depth and in walk order; without it the
  files with a supported extension directly in the root, every subdirectory being skipped
  as a whole.
\<close>
lemma visit_file:
  assumes "Contains (resolution g) ''x''"
    and "Atoi (hd (Split (resolution g) (CHR ''x''))) = Some w"
    and "Atoi (Split (resolution g) (CHR ''x'') ! 1) = Some h"
    and "hasExt s"
  shows "visit g s (Some (RegFile n)) None files =
           Inr (files @ map (plan g w h) (filter supportedExt [s]), Nil)"
  using assms(4) parsable_components_accepted [OF assms(1-3)]
  by (simp add: visit_def isSupportedFiletype_def supportedExt_def plan_def hasExt_def
      ToLower_Nil Let_def)

lemma visit_dir_recursive:
  "recursive g \<Longrightarrow> visit g s (Some (Directory n es rerr)) None files = Inr (files, Nil)"
  by (simp add: visit_def)

lemma walk_recursive:
  "Contains (resolution g) ''x'' \<Longrightarrow> Atoi (hd (Split (resolution g) (CHR ''x''))) = Some w \<Longrightarrow>
   Atoi (Split (resolution g) (CHR ''x'') ! 1) = Some h \<Longrightarrow> recursive g \<Longrightarrow>
   readable d \<Longrightarrow> list_all hasExt (filesBelow path d) \<Longrightarrow>
     walkDir g path d files =
       Inr (files @ map (plan g w h) (filter supportedExt (filesBelow path d)), Nil)"
  "Contains (resolution g) ''x'' \<Longrightarrow> Atoi (hd (Split (resolution g) (CHR ''x''))) = Some w \<Longrightarrow>
   Atoi (Split (resolution g) (CHR ''x'') ! 1) = Some h \<Longrightarrow> recursive g \<Longrightarrow>
   readableList es \<Longrightarrow> list_all hasExt (filesBelowList path es) \<Longrightarrow>
     walkEntries g path es files =
       Inr (files @ map (plan g w h) (filter supportedExt (filesBelowList path es)), Nil)"
proof (induction g path d files and g path es files rule: walkDir_walkEntries.induct)
  case (1 g path n files)
  then show ?case using visit_file [of g w h path n files] by simp
next
  case (2 g path n es rerr files)
  from "2.prems" have r: "rerr = None" and rl: "readableList es"
    and ext: "list_all hasExt (filesBelowList path es)" by simp_all
  have v: "visit g path (Some (Directory n es rerr)) None files = Inr (files, Nil)"
    using "2.prems"(4) by (rule visit_dir_recursive)
  have "walkEntries g path es files =
      Inr (files @ map (plan g w h) (filter supportedExt (filesBelowList path es)), Nil)"
    using "2.IH"(1) [OF v refl _ r "2.prems"(1-4) rl ext] by simp
  with v r show ?case by simp
next
  case (3 g path files)
  show ?case by simp
next
  case (4 g path d1 ds files)
  let ?p1 = "Join path (nodeName d1)"
  let ?files1 = "files @ map (plan g w h) (filter supportedExt (filesBelow ?p1 d1))"
  from "4.prems" have r1: "readable d1" and rl: "readableList ds"
    and e1: "list_all hasExt (filesBelow ?p1 d1)"
    and el: "list_all hasExt (filesBelowList path ds)" by simp_all
  have w1: "walkDir g ?p1 d1 files = Inr (?files1, Nil)"
    using "4.IH"(1) [OF "4.prems"(1-4) r1 e1] .
  have "walkEntries g path ds ?files1 =
      Inr (?files1 @ map (plan g w h) (filter supportedExt (filesBelowList path ds)), Nil)"
    using "4.IH"(2) [OF w1 refl _ "4.prems"(1-4) rl el] by simp
  with w1 show ?case by simp
qed

lemma visit_dir_flat:
  "\<not> recursive g \<Longrightarrow> s \<noteq> inputDir g \<Longrightarrow>
     visit g s (Some (Directory n es rerr)) None files = Inr (files, SkipDir)"
  by (simp add: visit_def)

lemma visit_root:
  "visit g (inputDir g) (Some (Directory n es rerr)) None files = Inr (files, Nil)"
  by (simp add: visit_def)

lemma walk_flat_entries:
  assumes "Contains (resolution g) ''x''"
    and "Atoi (hd (Split (resolution g) (CHR ''x''))) = Some w"
    and "Atoi (Split (resolution g) (CHR ''x'') ! 1) = Some h"
    and "\<not> recursive g"
  shows "list_all (apart g path) es \<Longrightarrow> list_all hasExt (directFiles path es) \<Longrightarrow>
     walkEntries g path es files =
       Inr (files @ map (plan g w h) (filter supportedExt (directFiles path es)), Nil)"
proof (induction es arbitrary: files)
  case Nil
  show ?case by simp
next
  case (Cons d1 ds)
  show ?case
  proof (cases d1)
    case (RegFile n)
    with Cons.prems have e: "hasExt (Join path n)"
      and rest: "list_all (apart g path) ds" "list_all hasExt (directFiles path ds)"
      by simp_all
    have "walkDir g (Join path n) (RegFile n) files =
        Inr (files @ map (plan g w h) (filter supportedExt [Join path n]), Nil)"
      using visit_file [OF assms(1-3) e] by simp
    with RegFile Cons.IH [OF rest] show ?thesis by simp
  next
    case (Directory n es' rerr)
    with Cons.prems have ap: "apart g path (Directory n es' rerr)"
      and rest: "list_all (apart g path) ds" "list_all hasExt (directFiles path ds)"
      by simp_all
    from ap have ne: "Join path n \<noteq> inputDir g" by (simp add: apart_def)
    have "walkDir g (Join path n) (Directory n es' rerr) files = Inr (files, Nil)"
      using visit_dir_flat [OF assms(4) ne] by (simp add: skipped_def)
    with Directory Cons.IH [OF rest] show ?thesis by simp
  qed
qed

lemma enumeration_recursive:
  assumes "Contains (resolution g) ''x''"
    and "Atoi (hd (Split (resolution g) (CHR ''x''))) = Some w"
    and "Atoi (Split (resolution g) (CHR ''x'') ! 1) = Some h"
    and "recursive g"
    and "lstat e (inputDir g) = Inr d"
    and "readable d"
    and "list_all hasExt (filesBelow (inputDir g) d)"
  shows "listFilesToBeCopies e g =
           Inr (map (plan g w h) (filter supportedExt (filesBelow (inputDir g) d)), None)"
  using walk_recursive(1) [OF assms(1-4) assms(6,7), of "[]"] assms(5)
  by (simp add: listFilesToBeCopies_def WalkDir_def)

lemma enumeration_flat:
  assumes "Contains (resolution g) ''x''"
    and "Atoi (hd (Split (resolution g) (CHR ''x''))) = Some w"
    and "Atoi (Split (resolution g) (CHR ''x'') ! 1) = Some h"
    and "\<not> recursive g"
    and "lstat e (inputDir g) = Inr (Directory n es None)"
    and "list_all (apart g (inputDir g)) es"
    and "list_all hasExt (directFiles (inputDir g) es)"
  shows "listFilesToBeCopies e g =
           Inr (map (plan g w h) (filter supportedExt (directFiles (inputDir g) es)), None)"
  using walk_flat_entries [OF assms(1-4) assms(6,7), of "[]"] assms(5)
  by (simp add: listFilesToBeCopies_def WalkDir_def visit_root)

text \<open>
  C1 (evaluation at the failing input).  The user asks for \<open>png\<close> only, validation stores
  \<open>[.png]\<close> as the requested types, and the file \<open>a.gif\<close> is planned all the same: the
  extension is compared with the supported set alone.
\<close>
theorem requested_types_not_consulted:
  "cmdMain (machine ''/in'' (Directory ''in'' [RegFile ''a.gif''] None))
        (flags ''/in'' ''/out'' False ''png'' ''100x50'')
   = Inr (\<lparr>inputDir = ''/in'', outputDir = ''/out'', recursive = False, verbose = False,
           fileType = ''png'', fileTypes = [''.png''], resolution = ''100x50'', printed = []\<rparr>,
          [\<lparr>originPath = ''/in/a.gif'', targetPath = ''/out/a.gif'',
            targetWidth = 100, targetHeight = 50\<rparr>])"
  by (simp add: run_defs)

text \<open>
  C3 (evaluation at the failing input).  The directory \<open>/in/locked\<close> cannot be read.  The
  walk stops there and returns the error, \<open>listFilesToBeCopies\<close> returns the operations
  collected so far with a \<open>nil\<close> error, and the run goes on to dispatch them.  When the
  root itself cannot be read, the run ends with "No files found" and exit code 0.
\<close>
theorem traversal_error_dropped:
  "WalkDir (machine ''/in'' (Directory ''in''
              [RegFile ''a.png'', Directory ''locked'' [] (Some ''permission denied''),
               RegFile ''z.png''] None))
        \<lparr>inputDir = ''/in'', outputDir = ''/out'', recursive = True, verbose = False,
          fileType = ''png'', fileTypes = [''.png''], resolution = ''100x50'', printed = []\<rparr>
        ''/in'' []
   = Inr ([\<lparr>originPath = ''/in/a.png'', targetPath = ''/out/a.png'',
            targetWidth = 100, targetHeight = 50\<rparr>], Err ''permission denied'')
   \<and> listFilesToBeCopies (machine ''/in'' (Directory ''in''
              [RegFile ''a.png'', Directory ''locked'' [] (Some ''permission denied''),
               RegFile ''z.png''] None))
        \<lparr>inputDir = ''/in'', outputDir = ''/out'', recursive = True, verbose = False,
          fileType = ''png'', fileTypes = [''.png''], resolution = ''100x50'', printed = []\<rparr>
   = Inr ([\<lparr>originPath = ''/in/a.png'', targetPath = ''/out/a.png'',
            targetWidth = 100, targetHeight = 50\<rparr>], None)
   \<and> cmdMain (machine ''/in'' (Directory ''in''
              [RegFile ''a.png'', Directory ''locked'' [] (Some ''permission denied''),
               RegFile ''z.png''] None))
        (flags ''/in'' ''/out'' True ''png'' ''100x50'')
   = Inr (\<lparr>inputDir = ''/in'', outputDir = ''/out'', recursive = True, verbose = False,
           fileType = ''png'', fileTypes = [''.png''], resolution = ''100x50'', printed = []\<rparr>,
          [\<lparr>originPath = ''/in/a.png'', targetPath = ''/out/a.png'',
            targetWidth = 100, targetHeight = 50\<rparr>])
   \<and> cmdMain (machine ''/in'' (Directory ''in'' [] (Some ''permission denied'')))
        (flags ''/in'' ''/out'' True ''png'' ''100x50'')
   = Inl (Exit 0, [NoFilesFound])"
  by (simp add: run_defs)

text \<open>
  C10 (evaluation at the failing input).  The file \<open>/in/README\<close> has the empty extension;
  the extension check slices it from index 1 and panics, and so does the whole run.
\<close>
theorem extension_check_panics:
  "Ext ''/in/README'' = []
   \<and> isSupportedFiletype (Ext ''/in/README'') [] = Inl (Panic, [])
   \<and> cmdMain (machine ''/in'' (Directory ''in'' [RegFile ''README'', RegFile ''a.png''] None))
        (flags ''/in'' ''/out'' False ''png'' ''100x50'')
      = Inl (Panic, [])"
  by (simp add: run_defs)

subsection \<open>The run that plans nothing\<close>

lemma visit_dir_result:
  "\<exists>r0. visit g s (Some (Directory n es rerr)) None files = Inr (files, r0)"
  by (simp add: visit_def)

lemma visit_error_result:
  "visit g s d (Some err) files = Inr (files, Err err)"
  by (simp add: visit_def)

lemma empty_enumeration_exits_0:
  assumes "validateFlags e g = Inr g1"
    and "listFilesToBeCopies e g1 = Inr ([], err)"
  shows "cmdMain e g = Inl (Exit 0, printed g1 @ [NoFilesFound])"
proof -
  from assms(2) have "err = None"
    by (auto simp: listFilesToBeCopies_def split: sum.splits)
  with assms show ?thesis by (simp add: cmdMain_def halted_def)
qed

text \<open>When every file of the tree has an extension and none of the extensions is supported,
  the run prints "No files found" and exits with code 0.\<close>
lemma visit_unsupported:
  "hasExt s \<Longrightarrow> \<not> supportedExt s \<Longrightarrow>
     visit g s (Some (RegFile n)) None files = Inr (files, Nil)"
  by (simp add: visit_def isSupportedFiletype_def supportedExt_def hasExt_def ToLower_Nil Let_def)

lemma walk_nothing_supported:
  "list_all (\<lambda>p. hasExt p \<and> \<not> supportedExt p) (filesBelow path d) \<Longrightarrow>
     \<exists>r. walkDir g path d files = Inr (files, r)"
  "list_all (\<lambda>p. hasExt p \<and> \<not> supportedExt p) (filesBelowList path es) \<Longrightarrow>
     \<exists>r. walkEntries g path es files = Inr (files, r)"
proof (induction g path d files and g path es files rule: walkDir_walkEntries.induct)
  case (1 g path n files)
  then show ?case using visit_unsupported [of path g n files] by simp
next
  case (2 g path n es rerr files)
  let ?D = "Directory n es rerr"
  obtain r0 where v: "visit g path (Some ?D) None files = Inr (files, r0)"
    using visit_dir_result by blast
  show ?case
  proof (cases "r0 = Nil")
    case False
    with v show ?thesis by simp
  next
    case True
    show ?thesis
    proof (cases rerr)
      case None
      from "2.prems" have "list_all (\<lambda>p. hasExt p \<and> \<not> supportedExt p) (filesBelowList path es)"
        by simp
      from "2.IH"(1) [OF v refl _ None this] True
      obtain r where "walkEntries g path es files = Inr (files, r)" by auto
      with v True None show ?thesis by simp
    next
      case (Some err)
      with v True show ?thesis by (simp add: visit_error_result)
    qed
  qed
next
  case (3 g path files)
  show ?case by simp
next
  case (4 g path d1 ds files)
  let ?p1 = "Join path (nodeName d1)"
  from "4.prems" have p1: "list_all (\<lambda>p. hasExt p \<and> \<not> supportedExt p) (filesBelow ?p1 d1)"
    and p2: "list_all (\<lambda>p. hasExt p \<and> \<not> supportedExt p) (filesBelowList path ds)"
    by simp_all
  from "4.IH"(1) [OF p1] obtain r1 where w1: "walkDir g ?p1 d1 files = Inr (files, r1)"
    by blast
  show ?case
  proof (cases "r1 = Nil")
    case False
    with w1 show ?thesis by simp
  next
    case True
    from "4.IH"(2) [OF w1 refl _ p2] True
    obtain r where "walkEntries g path ds files = Inr (files, r)" by auto
    with w1 True show ?thesis by simp
  qed
qed

lemma nothing_supported_exits_0:
  assumes "validateFlags e g = Inr g1"
    and "lstat e (inputDir g1) = Inr d"
    and "list_all (\<lambda>p. hasExt p \<and> \<not> supportedExt p) (filesBelow (inputDir g1) d)"
  shows "cmdMain e g = Inl (Exit 0, printed g1 @ [NoFilesFound])"
proof -
  from walk_nothing_supported(1) [OF assms(3), of g1 "[]"]
  obtain r where "walkDir g1 (inputDir g1) d [] = Inr ([], r)" by blast
  with assms(2) have "listFilesToBeCopies e g1 = Inr ([], None)"
    by (simp add: listFilesToBeCopies_def WalkDir_def)
  with assms(1) show ?thesis by (rule empty_enumeration_exits_0)
qed

text \<open>
  C9 (evaluation at the failing inputs).  The user leaves \<open>--type\<close> at \<open>png,jpg\<close> and the
  directory holds only \<open>scan.tif\<close>: no file matches the requested types, and the run
  does not end with "No files found" but goes on to dispatch \<open>scan.tif\<close>.  When the
  directory holds only \<open>README\<close>, again no file matches, and the run panics.
\<close>
theorem zero_requested_matches_not_clean:
  "cmdMain (machine ''/in'' (Directory ''in'' [RegFile ''scan.tif''] None))
        (flags ''/in'' ''/out'' False ''png,jpg'' ''100x50'')
   = Inr (\<lparr>inputDir = ''/in'', outputDir = ''/out'', recursive = False, verbose = False,
           fileType = ''png,jpg'', fileTypes = [''.png'', ''.jpg''], resolution = ''100x50'',
           printed = []\<rparr>,
          [\<lparr>originPath = ''/in/scan.tif'', targetPath = ''/out/scan.tif'',
            targetWidth = 100, targetHeight = 50\<rparr>])
   \<and> cmdMain (machine ''/in'' (Directory ''in'' [RegFile ''README''] None))
        (flags ''/in'' ''/out'' False ''png,jpg'' ''100x50'')
   = Inl (Panic, [])"
  by (simp add: run_defs)

subsection \<open>The resolution\<close>










subsection \<open>Dispatch\<close>

text \<open>The progress bar counts the finished goroutines, so after the join it shows the number
  of planned operations, under every schedule.\<close>
lemma doneCount_update:
  "i < length ts \<Longrightarrow>
     doneCount (ts[i := t]) + (if ts ! i = Done then 1 else 0)
       = doneCount ts + (if t = Done then 1 else 0)"
proof (induction ts arbitrary: i)
  case Nil
  then show ?case by simp
next
  case (Cons a ts)
  show ?case
  proof (cases i)
    case 0
    then show ?thesis by (simp add: doneCount_def)
  next
    case (Suc j)
    with Cons.prems have "j < length ts" by simp
    from Cons.IH [OF this] Suc show ?thesis by (auto simp: doneCount_def split: if_splits)
  qed
qed

lemma stepTask_bar:
  "stepTask e t0 sh = (t, sh1) \<Longrightarrow>
     bar sh1 + (if t0 = Done then 1 else 0) = bar sh + (if t = Done then 1 else 0)"
  by (cases t0) (auto split: option.splits)

lemma runSchedule_bar:
  "runSchedule e sched (ts, sh) = (ts', sh') \<Longrightarrow> bar sh = doneCount ts + k \<Longrightarrow>
     bar sh' = doneCount ts' + k"
proof (induction sched arbitrary: ts sh)
  case Nil
  then show ?case by simp
next
  case (Cons i sched)
  show ?case
  proof (cases "i < length ts")
    case True
    obtain t sh1 where st: "stepTask e (ts ! i) sh = (t, sh1)" by (cases "stepTask e (ts ! i) sh")
    with True Cons.prems(1) have run: "runSchedule e sched (ts[i := t], sh1) = (ts', sh')" by simp
    have "bar sh1 = doneCount (ts[i := t]) + k"
      using stepTask_bar [OF st] doneCount_update [OF True, of t] Cons.prems(2)
      by (simp split: if_splits)
    with run show ?thesis by (rule Cons.IH)
  next
    case False
    with Cons.prems(1) have "runSchedule e sched (ts, sh) = (ts', sh')" by simp
    then show ?thesis using Cons.prems(2) by (rule Cons.IH)
  qed
qed

lemma runSchedule_length:
  "runSchedule e sched (ts, sh) = (ts', sh') \<Longrightarrow> length ts' = length ts"
proof (induction sched arbitrary: ts sh)
  case Nil
  then show ?case by simp
next
  case (Cons i sched)
  then show ?case by (auto split: if_splits prod.splits)
qed

lemma allDone_doneCount: "allDone ts \<Longrightarrow> doneCount ts = length ts"
  unfolding allDone_def doneCount_def
  by (induction ts) (auto split: if_splits)

lemma doneCount_Ready: "doneCount (map Ready fo) = 0"
  by (induction fo) (auto simp: doneCount_def)

lemma progress_counts_every_operation:
  assumes "copyFilesWithProgress e verb fo sched = Some (sh, out)"
  shows "bar sh = length fo"
proof -
  obtain ts sh' where run: "runSchedule e sched (map Ready fo, \<lparr>errs = [], bar = 0\<rparr>) = (ts, sh')"
    by (cases "runSchedule e sched (map Ready fo, \<lparr>errs = [], bar = 0\<rparr>)")
  with assms have d: "allDone ts" and eq: "sh' = sh"
    by (auto simp: copyFilesWithProgress_def split: if_splits)
  have "bar sh' = doneCount ts + 0"
    using run by (rule runSchedule_bar) (simp add: doneCount_Ready)
  moreover have "length ts = length fo" using runSchedule_length [OF run] by simp
  ultimately show ?thesis using allDone_doneCount [OF d] eq by simp
qed

text \<open>
  C2 (evaluation at a failing schedule).  Two operations, both failing.  The goroutines
  alternate step by step, so both read the empty \<open>errs\<close> before either writes: after the
  join the bar shows 2, and \<open>errs\<close> holds one message, not two.
\<close>
theorem concurrent_append_loses_message:
  "failures ((machine ''/in'' (Directory ''in'' [] None))\<lparr>imagingOpen := (\<lambda>p. Some ''bad'')\<rparr>)
      [planned ''a.png'', planned ''b.png''] = 2
   \<and> copyFilesWithProgress
        ((machine ''/in'' (Directory ''in'' [] None))\<lparr>imagingOpen := (\<lambda>p. Some ''bad'')\<rparr>)
        True [planned ''a.png'', planned ''b.png''] [0, 1, 0, 1, 0, 1, 0, 1]
      = Some (\<lparr>errs = [''Error processing image: error opening image /in/b.png: bad'' @ [CHR 0x0A]],
               bar = 2\<rparr>,
              [FailedCount 1,
               Failure (''Error processing image: error opening image /in/b.png: bad''
                        @ [CHR 0x0A])])"
  by (simp add: failures_def copyFilesWithProgress_def processImage_def machine_def planned_def
      allDone_def summary_def)

end
